theory Spec2Isabelle
  imports Main "HOL-Library.Word"
begin

unbundle bit_operations_syntax

section \<open>Machine types\<close>

type_synonym u8 = "8 word"
type_synonym u32 = "32 word"
type_synonym u64 = "64 word"

section \<open>Address translator (kkm_kontext.c, lines 518-592)\<close>

text \<open>
  The address-space constants are the macros of kkm_kontext.c, written as the
  source writes them. All of them are \<open>unsigned long long\<close> (ULL) expressions.
\<close>

definition KKM_MIB :: u64 where
  "KKM_MIB = 0x100000"

definition KKM_GIB :: u64 where
  "KKM_GIB = 0x40000000"

definition KKM_TIB :: u64 where
  "KKM_TIB = 0x10000000000"

definition KKM_GUEST_MEM_START_VA :: u64 where
  "KKM_GUEST_MEM_START_VA = 2 * KKM_MIB"

definition KKM_GUEST_MAX_PHYS_MEM :: u64 where
  "KKM_GUEST_MAX_PHYS_MEM = 512 * KKM_GIB"

definition KKM_GUEST_MEM_TOP_VA :: u64 where
  "KKM_GUEST_MEM_TOP_VA = 128 * KKM_TIB - 2 * KKM_MIB"

definition KKM_GUEST_VA_OFFSET :: u64 where
  "KKM_GUEST_VA_OFFSET =
     KKM_GUEST_MEM_TOP_VA - (KKM_GUEST_MAX_PHYS_MEM - 2 * KKM_MIB)"

definition KKM_KM_USER_MEM_BASE :: u64 where
  "KKM_KM_USER_MEM_BASE = 0x100000000000"

definition KKM_KM_RSRV_VDSOSLOT :: nat where
  "KKM_KM_RSRV_VDSOSLOT = 41"

definition KKM_GUEST_VVAR_VDSO_BASE_VA :: u64 where
  "KKM_GUEST_VVAR_VDSO_BASE_VA = KKM_GUEST_MEM_TOP_VA + 1 * KKM_MIB"

text \<open>
  A memory slot (struct kkm_mem_slot): the validity flag \<open>used\<close> and the two fields of
  its memory region \<open>mr\<close> that the translator reads. The slot table of struct kkm is
  an array indexed by the slot number.
\<close>

record kkm_mem_slot =
  used :: bool
  mr_memory_size :: u64
  mr_userspace_addr :: u64

type_synonym mem_slots = "nat \<Rightarrow> kkm_mem_slot"

text \<open>
  \<open>kkm_guest_va_to_monitor_va\<close> returns its boolean result together with the value left
  in the out-parameter \<open>*monitor_va\<close> (which is zeroed on entry).
\<close>

definition kkm_guest_va_to_monitor_va :: "mem_slots \<Rightarrow> u64 \<Rightarrow> bool \<times> u64" where
  "kkm_guest_va_to_monitor_va mem_slot guest_va =
     (if guest_va \<ge> KKM_GUEST_MEM_START_VA \<and> guest_va < KKM_GUEST_MAX_PHYS_MEM
      then (True, KKM_KM_USER_MEM_BASE + guest_va)
      else if guest_va \<ge> KKM_GUEST_VA_OFFSET \<and> guest_va < KKM_GUEST_MEM_TOP_VA
      then (True, KKM_KM_USER_MEM_BASE + (guest_va - KKM_GUEST_VA_OFFSET))
      else
        let slot = mem_slot KKM_KM_RSRV_VDSOSLOT in
        if used slot \<and> guest_va \<ge> KKM_GUEST_VVAR_VDSO_BASE_VA
           \<and> guest_va < KKM_GUEST_VVAR_VDSO_BASE_VA + mr_memory_size slot
        then (True, guest_va - KKM_GUEST_VVAR_VDSO_BASE_VA + mr_userspace_addr slot)
        else (False, 0))"

section \<open>Constants declared outside the repository's sources\<close>

text \<open>
  Values fixed by the Linux kernel for x86-64: trap vectors (asm/trapnr.h), page-fault
  error-code bits (asm/trap_pf.h), flag bits (asm/processor-flags.h), segment selectors
  (asm/segment.h), the gate type (asm/desc_defs.h), error numbers and the page size.
\<close>

definition X86_TRAP_BP :: nat where "X86_TRAP_BP = 3"
definition X86_TRAP_OF :: nat where "X86_TRAP_OF = 4"
definition X86_TRAP_DF :: nat where "X86_TRAP_DF = 8"
definition X86_TRAP_TS :: nat where "X86_TRAP_TS = 10"
definition X86_TRAP_NP :: nat where "X86_TRAP_NP = 11"
definition X86_TRAP_SS :: nat where "X86_TRAP_SS = 12"
definition X86_TRAP_GP :: nat where "X86_TRAP_GP = 13"
definition X86_TRAP_PF :: nat where "X86_TRAP_PF = 14"
definition X86_TRAP_AC :: nat where "X86_TRAP_AC = 17"

definition NR_VECTORS :: nat where "NR_VECTORS = 256"
definition IDT_ENTRIES :: nat where "IDT_ENTRIES = 256"

definition X86_PF_WRITE :: u64 where "X86_PF_WRITE = 2"
definition X86_PF_USER :: u64 where "X86_PF_USER = 4"

definition X86_EFLAGS_IF :: u64 where "X86_EFLAGS_IF = 0x200"
definition X86_EFLAGS_IOPL :: u64 where "X86_EFLAGS_IOPL = 0x3000"
definition X86_EFLAGS_RF :: u64 where "X86_EFLAGS_RF = 0x10000"

definition USER_CS :: u64 where "USER_CS = 0x33"
definition USER_DS :: u64 where "USER_DS = 0x2B"
definition KERNEL_CS :: "16 word" where "KERNEL_CS = 0x10"
definition GATE_INTERRUPT :: "5 word" where "GATE_INTERRUPT = 0xE"

definition EFAULT :: int where "EFAULT = 14"
definition EINVAL :: int where "EINVAL = 22"
definition EOPNOTSUPP :: int where "EOPNOTSUPP = 95"

definition PAGE_SIZE :: u64 where "PAGE_SIZE = 4096"

text \<open>
  Macros of the repository's own headers (kkm_kontext.h, kkm_run.h, kkm_idt.h,
  kkm_intr.h, kkm_mmu.h), which are not among the sources: they are parameters of the model.
\<close>

record kkm_macros =
  KKM_OUT_OPCODE :: u8
  KKM_KONTEXT_FAULT_PROCESS_DONE :: int
  KKM_EXIT_UNKNOWN :: u64
  KKM_EXIT_IO :: u64
  KKM_EXIT_IO_OUT :: u64
  KKM_IDT_CODE_START_VA :: u64
  KKM_KX_INTR_CODE_SIZE :: int
  KKM_KX_ENTRY_CODE_SIZE :: int
  X86_TRAP_SE :: nat

section \<open>Guest area, run record and monitor memory\<close>

text \<open>
  The fields of struct kkm_guest_area that the functions below read or write
  (\<open>regs.rax\<close> is \<open>regs_rax\<close>, \<open>trap_info.rip\<close> is \<open>trap_info_rip\<close>, and so on).
  \<open>instruction_decode\<close> is the scratch byte array, indexed by position.
\<close>

record kkm_guest_area =
  regs_rax :: u64
  regs_rdx :: u64
  regs_rip :: u64
  regs_rflags :: u64
  trap_info_rip :: u64
  trap_info_rflags :: u64
  trap_info_error :: u64
  sregs_cr2 :: u64
  kkm_intr_no :: u64
  instruction_decode :: "nat \<Rightarrow> u8"
  guest_payload_cs :: u64
  guest_payload_ss :: u64
  guest_stack_variable_address :: u64
  native_save_tss_sp0 :: u64
  native_save_tss_sp1 :: u64
  native_save_tss_sp2 :: u64

text \<open>
  The exit record (struct kkm_run, in the page \<open>mmap_area[0]\<close>). The declared widths of
  its fields are in kkm_run.h; each field holds the value the code assigns, before any
  narrowing to the field's width.
\<close>

record kkm_run =
  exit_reason :: u64
  io_direction :: u64
  io_size :: u64
  io_port :: u64
  io_count :: u64
  io_data_offset :: u64

text \<open>
  The monitor's address space as \<open>copy_from_user\<close> and \<open>copy_to_user\<close> see it: which
  bytes can be read, which can be written, and what they hold.
\<close>

record host_mem =
  readable :: "u64 \<Rightarrow> bool"
  writable :: "u64 \<Rightarrow> bool"
  content :: "u64 \<Rightarrow> u8"

datatype user_access = User_read u64 | User_write u64 u8

text \<open>
  What a kontext reaches from the trap handlers: its guest area, the exit record, the
  data page \<open>mmap_area[1]\<close> viewed as an array of \<open>uint32_t\<close> (as the code casts it), the
  slot table of its kkm, the monitor's memory, and the log of the one-byte user accesses
  attempted so far (oldest first).
\<close>

record kkm_kontext =
  ga :: kkm_guest_area
  run :: kkm_run
  io_data :: "nat \<Rightarrow> u32"
  mem_slot :: mem_slots
  monitor_mem :: host_mem
  probes :: "user_access list"

text \<open>
  \<open>copy_from_user (ga->instruction_decode, addr, sizeof (uint8_t))\<close>: the result is
  True when the byte was copied (the kernel function returns 0). On failure the kernel
  zero-fills the destination.
\<close>

definition copy_from_user :: "kkm_kontext \<Rightarrow> u64 \<Rightarrow> bool \<times> kkm_kontext" where
  "copy_from_user k addr =
     (let k1 = k\<lparr>probes := probes k @ [User_read addr]\<rparr> in
      if readable (monitor_mem k) addr
      then (True, k1\<lparr>ga := (ga k)\<lparr>instruction_decode :=
              (instruction_decode (ga k))(0 := content (monitor_mem k) addr)\<rparr>\<rparr>)
      else (False, k1\<lparr>ga := (ga k)\<lparr>instruction_decode :=
              (instruction_decode (ga k))(0 := 0)\<rparr>\<rparr>))"

text \<open>\<open>copy_to_user (addr, ga->instruction_decode, sizeof (uint8_t))\<close>.\<close>

definition copy_to_user :: "kkm_kontext \<Rightarrow> u64 \<Rightarrow> bool \<times> kkm_kontext" where
  "copy_to_user k addr =
     (let b = instruction_decode (ga k) 0;
          k1 = k\<lparr>probes := probes k @ [User_write addr b]\<rparr> in
      if writable (monitor_mem k) addr
      then (True, k1\<lparr>monitor_mem := (monitor_mem k)\<lparr>content :=
              (content (monitor_mem k))(addr := b)\<rparr>\<rparr>)
      else (False, k1))"

section \<open>Fault emulators and dispatcher (kkm_kontext.c, lines 393-516)\<close>

definition kkm_process_general_protection ::
  "kkm_macros \<Rightarrow> kkm_kontext \<Rightarrow> int \<times> kkm_kontext" where
  "kkm_process_general_protection m k =
     (let (ok, monitor_fault_address) =
            kkm_guest_va_to_monitor_va (mem_slot k) (trap_info_rip (ga k)) in
      if \<not> ok then (- EFAULT, k)
      else
        let (copied, k1) = copy_from_user k monitor_fault_address in
        if \<not> copied then (- EFAULT, k1)
        else if instruction_decode (ga k1) 0 = KKM_OUT_OPCODE m
        then (0, k1\<lparr>
               run := (run k1)\<lparr>exit_reason := KKM_EXIT_IO m,
                                io_direction := KKM_EXIT_IO_OUT m,
                                io_size := 4,
                                io_port := regs_rdx (ga k1) AND 0xFFFF,
                                io_count := 1,
                                io_data_offset := PAGE_SIZE\<rparr>,
               io_data := (io_data k1)(0 := ucast (regs_rax (ga k1))),
               ga := (ga k1)\<lparr>regs_rip := regs_rip (ga k1) + 1\<rparr>\<rparr>)
        else (0, k1))"

definition kkm_process_page_fault ::
  "kkm_macros \<Rightarrow> kkm_kontext \<Rightarrow> int \<times> kkm_kontext" where
  "kkm_process_page_fault m k =
     (let error_code = trap_info_error (ga k);
          (ok, monitor_fault_address) =
            kkm_guest_va_to_monitor_va (mem_slot k) (sregs_cr2 (ga k)) in
      if \<not> ok then (- EFAULT, k)
      else if error_code AND X86_PF_USER = X86_PF_USER
      then
        let (copied, k1) = copy_from_user k monitor_fault_address in
        if \<not> copied then (- EFAULT, k1)
        else if error_code AND X86_PF_WRITE = X86_PF_WRITE
        then
          let (written, k2) = copy_to_user k1 monitor_fault_address in
          if \<not> written then (- EFAULT, k2)
          else (KKM_KONTEXT_FAULT_PROCESS_DONE m, k2)
        else (KKM_KONTEXT_FAULT_PROCESS_DONE m, k1)
      else (0, k))"

definition kkm_process_intr :: "kkm_macros \<Rightarrow> kkm_kontext \<Rightarrow> int \<times> kkm_kontext" where
  "kkm_process_intr m k =
     (let k0 = k\<lparr>run := (run k)\<lparr>exit_reason := KKM_EXIT_UNKNOWN m\<rparr>\<rparr> in
      if kkm_intr_no (ga k0) = of_nat X86_TRAP_GP
      then kkm_process_general_protection m k0
      else if kkm_intr_no (ga k0) = of_nat X86_TRAP_PF
      then kkm_process_page_fault m k0
      else (- EOPNOTSUPP, k0))"

text \<open>
  The test of \<open>kkm_kontext_switch_kernel\<close> (line 187) that decides whether the guest is
  restarted (\<open>goto begin\<close>) or the result is returned to the caller.
\<close>

definition restarts_guest :: "kkm_macros \<Rightarrow> int \<Rightarrow> bool" where
  "restarts_guest m ret_val = (ret_val = KKM_KONTEXT_FAULT_PROCESS_DONE m)"

text \<open>
  The guest-area updates of \<open>kkm_switch_to_host_kernel\<close> (lines 308-309), which run on
  every trap before the dispatcher.
\<close>

definition kkm_switch_to_host_kernel :: "kkm_guest_area \<Rightarrow> kkm_guest_area" where
  "kkm_switch_to_host_kernel g =
     g\<lparr>regs_rip := trap_info_rip g, regs_rflags := trap_info_rflags g\<rparr>"

section \<open>Entering the payload (kkm_kontext.c, lines 200-286)\<close>

text \<open>
  The guest-area updates of \<open>kkm_guest_kernel_start_payload\<close>, in the order of the
  source; the result is the guest area that \<open>kkm_switch_to_gp_asm\<close> receives. The
  argument is the guest area mapped for the current cpu; \<open>cpu_addr\<close> is the address of
  the local variable \<open>cpu\<close>, and \<open>sp0\<close>, \<open>sp1\<close>, \<open>sp2\<close> are the stack pointers found in the
  cpu entry area's TSS. The branch on a clear interrupt flag (line 239) has an empty body.
  Loads of segment registers, MSRs, the TSS and the IDT register change no field of the
  guest area. The redzone check (a function of kkm_misc.c) only reads the guest area; the
  result is the guest area on the path where the check passes.
\<close>

definition kkm_guest_kernel_start_payload ::
  "kkm_guest_area \<Rightarrow> u64 \<Rightarrow> u64 \<Rightarrow> u64 \<Rightarrow> u64 \<Rightarrow> kkm_guest_area" where
  "kkm_guest_kernel_start_payload g cpu_addr sp0 sp1 sp2 =
     (let g1 = g\<lparr>guest_stack_variable_address := cpu_addr\<rparr>;
          g2 = g1\<lparr>guest_payload_cs := USER_CS\<rparr>;
          g3 = g2\<lparr>guest_payload_ss := USER_DS\<rparr>;
          g4 = (if regs_rflags g3 AND X86_EFLAGS_IF = 0 then g3 else g3);
          g5 = g4\<lparr>regs_rflags := regs_rflags g4 AND NOT X86_EFLAGS_IF\<rparr>;
          g6 = (if regs_rflags g5 AND X86_EFLAGS_IOPL \<noteq> 0
                then g5\<lparr>regs_rflags := regs_rflags g5 AND NOT X86_EFLAGS_IOPL\<rparr>
                else g5);
          g7 = (if regs_rflags g6 AND X86_EFLAGS_RF = 0
                then g6\<lparr>regs_rflags := regs_rflags g6 OR X86_EFLAGS_RF\<rparr>
                else g6)
      in g7\<lparr>native_save_tss_sp0 := sp0,
             native_save_tss_sp1 := sp1,
             native_save_tss_sp2 := sp2\<rparr>)"

section \<open>Page allocation\<close>

text \<open>
  Modelled from the spec: the outcome of one call of the page allocator
  (\<open>kkm_mm_allocate_page\<close>, \<open>kkm_mm_allocate_pages\<close> of kkm_mm.c, which is not among the
  sources). The spec describes it as page allocation with resulting host-kernel-virtual
  and physical addresses, which may fail. A successful call yields a page pointer, a
  kernel virtual address and a physical address; a failed call yields its nonzero return
  value. Pointers are 64-bit values, NULL is 0.
\<close>

datatype alloc_outcome = Alloc_ok u64 u64 u64 | Alloc_fail int

text \<open>
  Modelled from the spec: a call of the page allocator. \<open>old\<close> holds the contents of the
  three out-parameters before the call; the result is the return value with their
  contents after it. A successful call returns 0 and stores the three values (a caller
  passing NULL for the physical address drops that one); a failed call stores nothing.
\<close>

fun kkm_mm_allocate_page ::
  "alloc_outcome \<Rightarrow> u64 \<times> u64 \<times> u64 \<Rightarrow> int \<times> u64 \<times> u64 \<times> u64" where
  "kkm_mm_allocate_page (Alloc_ok page va pa) old = (0, page, va, pa)"
| "kkm_mm_allocate_page (Alloc_fail e) old = (e, old)"

fun alloc_ret :: "alloc_outcome \<Rightarrow> int" where
  "alloc_ret (Alloc_ok page va pa) = 0"
| "alloc_ret (Alloc_fail e) = e"

text \<open>A successful allocation returns a page pointer that is not NULL.\<close>

fun alloc_page_nonnull :: "alloc_outcome \<Rightarrow> bool" where
  "alloc_page_nonnull (Alloc_ok page va pa) = (page \<noteq> 0)"
| "alloc_page_nonnull (Alloc_fail e) = True"

section \<open>Gate descriptors\<close>

text \<open>The kernel's struct gate_struct (gate_desc), with the bit fields of struct idt_bits.\<close>

record gate_struct =
  offset_low :: "16 word"
  segment :: "16 word"
  bits_ist :: "3 word"
  bits_zero :: "5 word"
  bits_type :: "5 word"
  bits_dpl :: "2 word"
  bits_p :: "1 word"
  offset_middle :: "16 word"
  offset_high :: "32 word"
  reserved :: "32 word"

section \<open>Kontainer (kkm_kontainer.c)\<close>

text \<open>
  The fields of struct kkm that kkm_kontainer.c uses, the gate descriptors held in the
  page \<open>idt\<close> points to, and the log of the addresses passed to \<open>free_page\<close>.
\<close>

record kkm =
  guest_kernel_page :: u64
  guest_kernel :: u64
  guest_kernel_pa :: u64
  guest_payload_page :: u64
  guest_payload :: u64
  guest_payload_pa :: u64
  idt_page :: u64
  idt :: u64
  idt_gd :: "nat \<Rightarrow> gate_struct"
  freed :: "u64 list"

definition kkm_kontainer_cleanup :: "kkm \<Rightarrow> kkm" where
  "kkm_kontainer_cleanup k =
     (let k1 = (if guest_kernel_page k \<noteq> 0
                then k\<lparr>freed := freed k @ [guest_kernel k],
                       guest_kernel_page := 0, guest_kernel := 0\<rparr>
                else k);
          k2 = (if guest_payload_page k1 \<noteq> 0
                then k1\<lparr>freed := freed k1 @ [guest_payload k1],
                        guest_payload_page := 0, guest_payload := 0\<rparr>
                else k1)
      in if idt_page k2 \<noteq> 0
         then k2\<lparr>freed := freed k2 @ [idt k2], idt_page := 0, idt := 0\<rparr>
         else k2)"

text \<open>The loop over the gate descriptors (lines 70-84), from index \<open>i\<close> on.\<close>

function kkm_kontainer_gd_loop ::
  "u64 \<Rightarrow> nat \<Rightarrow> (nat \<Rightarrow> gate_struct) \<Rightarrow> (nat \<Rightarrow> gate_struct)" where
  "kkm_kontainer_gd_loop desc_addr i gd =
     (if i < IDT_ENTRIES
      then kkm_kontainer_gd_loop desc_addr (i + 1)
             (gd(i := (gd i)\<lparr>segment := KERNEL_CS,
                              offset_low := ucast (desc_addr AND 0xFFFF),
                              offset_middle := ucast (drop_bit 16 desc_addr AND 0xFFFF),
                              offset_high := ucast (drop_bit 32 desc_addr AND 0xFFFFFFFF),
                              bits_ist := 0,
                              bits_zero := 0,
                              bits_type := GATE_INTERRUPT,
                              bits_dpl := 0,
                              bits_p := 1\<rparr>))
      else gd)"
  by pat_completeness auto
termination
  by (relation "measure (\<lambda>(desc_addr, i, gd). IDT_ENTRIES - i)") auto

text \<open>
  \<open>kkm_kontainer_init\<close>: \<open>desc_addr\<close> is the address of \<open>kkm_trap_entry\<close>; \<open>a1\<close>, \<open>a2\<close>, \<open>a3\<close>
  are the outcomes of the three allocations, in order (a later one is not consulted
  when an earlier one fails).
\<close>

definition kkm_kontainer_init ::
  "u64 \<Rightarrow> alloc_outcome \<Rightarrow> alloc_outcome \<Rightarrow> alloc_outcome \<Rightarrow> kkm \<Rightarrow> int \<times> kkm" where
  "kkm_kontainer_init desc_addr a1 a2 a3 k =
     (let (r1, p1, v1, pa1) =
            kkm_mm_allocate_page a1 (guest_kernel_page k, guest_kernel k, guest_kernel_pa k);
          k1 = k\<lparr>guest_kernel_page := p1, guest_kernel := v1, guest_kernel_pa := pa1\<rparr>
      in if r1 \<noteq> 0 then (r1, kkm_kontainer_cleanup k1)
      else
        let (r2, p2, v2, pa2) =
              kkm_mm_allocate_page a2
                (guest_payload_page k1, guest_payload k1, guest_payload_pa k1);
            k2 = k1\<lparr>guest_payload_page := p2, guest_payload := v2, guest_payload_pa := pa2\<rparr>
        in if r2 \<noteq> 0 then (r2, kkm_kontainer_cleanup k2)
        else
          let (r3, p3, v3, pa3) = kkm_mm_allocate_page a3 (idt_page k2, idt k2, 0);
              k3 = k2\<lparr>idt_page := p3, idt := v3\<rparr>
          in if r3 \<noteq> 0 then (r3, kkm_kontainer_cleanup k3)
          else (r3, k3\<lparr>idt_gd := kkm_kontainer_gd_loop desc_addr 0 (idt_gd k3)\<rparr>))"

section \<open>Kontext allocation (kkm_kontext.c, lines 39-96)\<close>

text \<open>
  The fields of struct kkm_kontext that \<open>kkm_kontext_init\<close> and \<open>kkm_kontext_cleanup\<close>
  use, the two back-pointer fields of the guest area that \<open>guest_area\<close> points to, and
  the log of the addresses passed to \<open>free_page\<close>.
\<close>

record kkm_kontext_alloc =
  guest_area_page :: u64
  guest_area :: u64
  guest_area_page0_pa :: u64
  guest_area_page1_pa :: u64
  ga_kkm_kontext :: u64
  ga_guest_area_beg :: u64
  kontext_freed :: "u64 list"

definition kkm_kontext_cleanup :: "kkm_kontext_alloc \<Rightarrow> kkm_kontext_alloc" where
  "kkm_kontext_cleanup k =
     (if guest_area_page k \<noteq> 0
      then k\<lparr>kontext_freed := kontext_freed k @ [guest_area k],
             guest_area_page := 0, guest_area := 0\<rparr>
      else k)"

text \<open>
  \<open>kkm_kontext_init\<close>: \<open>self\<close> is the address of the kontext structure, \<open>virt_to_phys\<close> the
  kernel's address conversion, \<open>a\<close> the outcome of the allocation (its physical-address
  out-parameter is NULL). Writing the redzone sentinels (a function of kkm_misc.c) touches
  none of the fields modelled here.
\<close>

definition kkm_kontext_init ::
  "u64 \<Rightarrow> (u64 \<Rightarrow> u64) \<Rightarrow> alloc_outcome \<Rightarrow> kkm_kontext_alloc \<Rightarrow> int \<times> kkm_kontext_alloc" where
  "kkm_kontext_init self virt_to_phys a k =
     (let (r, p, v, pa) = kkm_mm_allocate_page a (guest_area_page k, guest_area k, 0);
          k1 = k\<lparr>guest_area_page := p, guest_area := v\<rparr>
      in if r \<noteq> 0 then (r, kkm_kontext_cleanup k1)
      else (r, k1\<lparr>guest_area_page0_pa := virt_to_phys (guest_area k1),
                  guest_area_page1_pa := virt_to_phys (guest_area k1 + PAGE_SIZE),
                  ga_kkm_kontext := self,
                  ga_guest_area_beg := guest_area k1\<rparr>))"

section \<open>Guest interrupt-descriptor table (kkm_idt.c, lines 77-289)\<close>

text \<open>
  What \<open>kkm_idt_descr_init\<close> takes from its environment: the sizes of the two code
  regions (differences of symbol addresses), the outcome of the allocation, the size field
  of the native IDT descriptor as stored by the platform, the address returned by
  \<open>kkm_mmu_get_idt_va\<close>, and the addresses of the eight distinguished entry stubs.
\<close>

record kkm_idt_env =
  intr_code_len :: int
  entry_code_len :: int
  idt_alloc :: alloc_outcome
  native_idt_size :: "16 word"
  kkm_mmu_get_idt_va :: u64
  kkm_intr_entry_double_fault :: u64
  kkm_intr_entry_invalid_TSS :: u64
  kkm_intr_entry_segment_np :: u64
  kkm_intr_entry_ss_fault :: u64
  kkm_intr_entry_general_protection :: u64
  kkm_intr_entry_page_fault :: u64
  kkm_intr_entry_alignment_check :: u64
  kkm_intr_entry_security_exception :: u64

text \<open>
  The parts of the global \<open>kkm_idt\<close> and of the table \<open>intr_function_pointers\<close> that the
  function writes; \<open>gs\<close> holds the gate descriptors of the allocated table.
\<close>

record kkm_idt_state =
  idt_entry_page :: u64
  idt_entry_va :: u64
  idt_entry_pa :: u64
  intr_function_pointers :: "nat \<Rightarrow> u64"
  gs :: "nat \<Rightarrow> gate_struct"
  native_idt_desc_size :: "16 word"
  guest_idt_desc_size :: "16 word"
  guest_idt_desc_address :: u64

text \<open>
  The body of the loop over the vectors (lines 173-189): the descriptor written at index
  \<open>i\<close>, from the one found there (every field is assigned).
\<close>

definition kkm_idt_gs_entry ::
  "kkm_macros \<Rightarrow> (nat \<Rightarrow> u64) \<Rightarrow> nat \<Rightarrow> gate_struct \<Rightarrow> gate_struct" where
  "kkm_idt_gs_entry m fp i e =
     (let intr_entry_addr = KKM_IDT_CODE_START_VA m + fp i - fp 0;
          e0 = e\<lparr>offset_low := ucast (intr_entry_addr AND 0xFFFF),
                  segment := KERNEL_CS,
                  bits_ist := 0,
                  bits_zero := 0,
                  bits_type := GATE_INTERRUPT,
                  bits_dpl := 0\<rparr>;
          e1 = (if i = X86_TRAP_BP \<or> i = X86_TRAP_OF then e0\<lparr>bits_dpl := 3\<rparr> else e0)
      in e1\<lparr>bits_p := 1,
             offset_middle := ucast (drop_bit 16 intr_entry_addr AND 0xFFFF),
             offset_high := ucast (drop_bit 32 intr_entry_addr AND 0xFFFFFFFF),
             reserved := 0\<rparr>)"

text \<open>The loop over the vectors (lines 172-190), from index \<open>i\<close> on.\<close>

function kkm_idt_gs_loop ::
  "kkm_macros \<Rightarrow> (nat \<Rightarrow> u64) \<Rightarrow> nat \<Rightarrow> (nat \<Rightarrow> gate_struct) \<Rightarrow> (nat \<Rightarrow> gate_struct)" where
  "kkm_idt_gs_loop m fp i g =
     (if i < NR_VECTORS
      then kkm_idt_gs_loop m fp (i + 1) (g(i := kkm_idt_gs_entry m fp i (g i)))
      else g)"
  by pat_completeness auto
termination
  by (relation "measure (\<lambda>(m, fp, i, g). NR_VECTORS - i)") auto

text \<open>
  \<open>kkm_idt_descr_init\<close>, up to the descriptor of the guest table (line 196). The copies
  and patches of the code pages that follow write to the pages after the table.
\<close>

definition kkm_idt_descr_init ::
  "kkm_macros \<Rightarrow> kkm_idt_env \<Rightarrow> kkm_idt_state \<Rightarrow> int \<times> kkm_idt_state" where
  "kkm_idt_descr_init m env s =
     (if intr_code_len env \<ge> KKM_KX_INTR_CODE_SIZE m then (- EINVAL, s)
      else if entry_code_len env \<ge> KKM_KX_ENTRY_CODE_SIZE m then (- EINVAL, s)
      else
        let (r, p, v, pa) =
              kkm_mm_allocate_page (idt_alloc env)
                (idt_entry_page s, idt_entry_va s, idt_entry_pa s);
            s1 = s\<lparr>idt_entry_page := p, idt_entry_va := v, idt_entry_pa := pa\<rparr>
        in if r \<noteq> 0 then (r, s1)
        else
          let s2 = s1\<lparr>native_idt_desc_size := native_idt_size env\<rparr>;
              fp = (intr_function_pointers s2)
                     (X86_TRAP_DF := kkm_intr_entry_double_fault env);
              fp = fp(X86_TRAP_TS := kkm_intr_entry_invalid_TSS env);
              fp = fp(X86_TRAP_NP := kkm_intr_entry_segment_np env);
              fp = fp(X86_TRAP_SS := kkm_intr_entry_ss_fault env);
              fp = fp(X86_TRAP_GP := kkm_intr_entry_general_protection env);
              fp = fp(X86_TRAP_PF := kkm_intr_entry_page_fault env);
              fp = fp(X86_TRAP_AC := kkm_intr_entry_alignment_check env);
              fp = fp(X86_TRAP_SE m := kkm_intr_entry_security_exception env);
              s3 = s2\<lparr>intr_function_pointers := fp\<rparr>;
              s4 = s3\<lparr>gs := kkm_idt_gs_loop m fp 0 (gs s3)\<rparr>
          in (r, s4\<lparr>guest_idt_desc_size := native_idt_desc_size s4,
                     guest_idt_desc_address := kkm_mmu_get_idt_va env\<rparr>))"

section \<open>Sample inputs\<close>

text \<open>
  Concrete inputs on which the theorems below are evaluated. The macro values are
  sample values, chosen for the evaluation only.
\<close>

definition sample_macros :: kkm_macros where
  "sample_macros =
     \<lparr>KKM_OUT_OPCODE = 0xEF, KKM_KONTEXT_FAULT_PROCESS_DONE = 1, KKM_EXIT_UNKNOWN = 0,
      KKM_EXIT_IO = 2, KKM_EXIT_IO_OUT = 1, KKM_IDT_CODE_START_VA = 0xFFFFFE8000001000,
      KKM_KX_INTR_CODE_SIZE = 4096, KKM_KX_ENTRY_CODE_SIZE = 4096, X86_TRAP_SE = 30\<rparr>"

definition sample_slots :: mem_slots where
  "sample_slots = (\<lambda>_. \<lparr>used = False, mr_memory_size = 0, mr_userspace_addr = 0\<rparr>)"

definition sample_vdso_slots :: "bool \<Rightarrow> mem_slots" where
  "sample_vdso_slots u =
     sample_slots(41 := \<lparr>used = u, mr_memory_size = 0x4000,
                          mr_userspace_addr = 0x7F0000000000\<rparr>)"

definition sample_ga :: "u64 \<Rightarrow> u64 \<Rightarrow> u64 \<Rightarrow> kkm_guest_area" where
  "sample_ga vector fault_va error =
     \<lparr>regs_rax = 0x1234, regs_rdx = 0x03F8, regs_rip = fault_va, regs_rflags = 0x3246,
      trap_info_rip = fault_va, trap_info_rflags = 0x3246, trap_info_error = error,
      sregs_cr2 = fault_va, kkm_intr_no = vector, instruction_decode = (\<lambda>_. 0),
      guest_payload_cs = 0x10, guest_payload_ss = 0x18, guest_stack_variable_address = 0,
      native_save_tss_sp0 = 0, native_save_tss_sp1 = 0, native_save_tss_sp2 = 0\<rparr>"

definition sample_kontext :: "u64 \<Rightarrow> u64 \<Rightarrow> u64 \<Rightarrow> u8 \<Rightarrow> kkm_kontext" where
  "sample_kontext vector fault_va error byte =
     \<lparr>ga = sample_ga vector fault_va error,
      run = \<lparr>exit_reason = 7, io_direction = 0, io_size = 0, io_port = 0, io_count = 0,
             io_data_offset = 0\<rparr>,
      io_data = (\<lambda>_. 0),
      mem_slot = sample_slots,
      monitor_mem = \<lparr>readable = (\<lambda>_. True), writable = (\<lambda>_. True), content = (\<lambda>_. byte)\<rparr>,
      probes = []\<rparr>"

definition sample_gate :: gate_struct where
  "sample_gate =
     \<lparr>offset_low = 0, segment = 0, bits_ist = 0, bits_zero = 0, bits_type = 0, bits_dpl = 0,
      bits_p = 0, offset_middle = 0, offset_high = 0, reserved = 0\<rparr>"

definition sample_kkm :: kkm where
  "sample_kkm =
     \<lparr>guest_kernel_page = 0, guest_kernel = 0, guest_kernel_pa = 0,
      guest_payload_page = 0, guest_payload = 0, guest_payload_pa = 0,
      idt_page = 0, idt = 0, idt_gd = (\<lambda>_. sample_gate), freed = []\<rparr>"

definition sample_kontext_alloc :: kkm_kontext_alloc where
  "sample_kontext_alloc =
     \<lparr>guest_area_page = 0, guest_area = 0, guest_area_page0_pa = 0, guest_area_page1_pa = 0,
      ga_kkm_kontext = 0, ga_guest_area_beg = 0, kontext_freed = []\<rparr>"

definition sample_idt_env :: kkm_idt_env where
  "sample_idt_env =
     \<lparr>intr_code_len = 2048, entry_code_len = 512,
      idt_alloc = Alloc_ok 0xFFFFEA0000040000 0xFFFF888001000000 0x1000000,
      native_idt_size = 0xFFF, kkm_mmu_get_idt_va = 0xFFFFFE8000000000,
      kkm_intr_entry_double_fault = 0xFFFFFFFFC0001080,
      kkm_intr_entry_invalid_TSS = 0xFFFFFFFFC00010A0,
      kkm_intr_entry_segment_np = 0xFFFFFFFFC00010B0,
      kkm_intr_entry_ss_fault = 0xFFFFFFFFC00010C0,
      kkm_intr_entry_general_protection = 0xFFFFFFFFC00010D0,
      kkm_intr_entry_page_fault = 0xFFFFFFFFC00010E0,
      kkm_intr_entry_alignment_check = 0xFFFFFFFFC0001110,
      kkm_intr_entry_security_exception = 0xFFFFFFFFC00011E0\<rparr>"

definition sample_idt_state :: kkm_idt_state where
  "sample_idt_state =
     \<lparr>idt_entry_page = 0, idt_entry_va = 0, idt_entry_pa = 0,
      intr_function_pointers = (\<lambda>i. 0xFFFFFFFFC0001000 + 16 * of_nat i),
      gs = (\<lambda>_. sample_gate),
      native_idt_desc_size = 0, guest_idt_desc_size = 0, guest_idt_desc_address = 0\<rparr>"

section \<open>Values of the address-space constants\<close>

lemma KKM_GUEST_MEM_START_VA_val: "KKM_GUEST_MEM_START_VA = 0x200000"
  by (simp add: KKM_GUEST_MEM_START_VA_def KKM_MIB_def)

lemma KKM_GUEST_MAX_PHYS_MEM_val: "KKM_GUEST_MAX_PHYS_MEM = 0x8000000000"
  by (simp add: KKM_GUEST_MAX_PHYS_MEM_def KKM_GIB_def)

lemma KKM_GUEST_MEM_TOP_VA_val: "KKM_GUEST_MEM_TOP_VA = 0x7FFFFFE00000"
  by (simp add: KKM_GUEST_MEM_TOP_VA_def KKM_TIB_def KKM_MIB_def)

lemma KKM_GUEST_VA_OFFSET_val: "KKM_GUEST_VA_OFFSET = 0x7F8000000000"
  by (simp add: KKM_GUEST_VA_OFFSET_def KKM_GUEST_MEM_TOP_VA_val
      KKM_GUEST_MAX_PHYS_MEM_val KKM_MIB_def)

lemma KKM_GUEST_VVAR_VDSO_BASE_VA_val: "KKM_GUEST_VVAR_VDSO_BASE_VA = 0x7FFFFFF00000"
  by (simp add: KKM_GUEST_VVAR_VDSO_BASE_VA_def KKM_GUEST_MEM_TOP_VA_val KKM_MIB_def)

lemmas kkm_va_vals =
  KKM_GUEST_MEM_START_VA_val KKM_GUEST_MAX_PHYS_MEM_val KKM_GUEST_MEM_TOP_VA_val
  KKM_GUEST_VA_OFFSET_val KKM_GUEST_VVAR_VDSO_BASE_VA_val

lemma high_window_not_low:
  "KKM_GUEST_VA_OFFSET \<le> a \<Longrightarrow> \<not> a < KKM_GUEST_MAX_PHYS_MEM"
  unfolding kkm_va_vals by (simp add: word_le_nat_alt word_less_nat_alt)

lemma vvar_not_low:
  "KKM_GUEST_VVAR_VDSO_BASE_VA \<le> a \<Longrightarrow> \<not> a < KKM_GUEST_MAX_PHYS_MEM"
  unfolding kkm_va_vals by (simp add: word_le_nat_alt word_less_nat_alt)

lemma vvar_not_high:
  "KKM_GUEST_VVAR_VDSO_BASE_VA \<le> a \<Longrightarrow> \<not> a < KKM_GUEST_MEM_TOP_VA"
  unfolding kkm_va_vals by (simp add: word_le_nat_alt word_less_nat_alt)

section \<open>The linear windows\<close>

text \<open>
  Claim C1. For every guest virtual address \<open>a\<close> in the low window [2 MiB, 512 GiB) the
  translator succeeds with monitor address \<open>KKM_KM_USER_MEM_BASE + a\<close>; for every \<open>a\<close> in
  the high window [KKM_GUEST_VA_OFFSET, 128 TiB - 2 MiB) it succeeds with
  \<open>KKM_KM_USER_MEM_BASE + (a - KKM_GUEST_VA_OFFSET)\<close>. The bounds are stated as numbers,
  so the theorem also fixes the values of the macros.
\<close>

theorem guest_va_linear_windows:
  "(0x200000 \<le> a \<and> a < 0x8000000000 \<longrightarrow>
      kkm_guest_va_to_monitor_va slots a = (True, KKM_KM_USER_MEM_BASE + a))
   \<and> (KKM_GUEST_VA_OFFSET \<le> a \<and> a < 0x7FFFFFE00000 \<longrightarrow>
      kkm_guest_va_to_monitor_va slots a
        = (True, KKM_KM_USER_MEM_BASE + (a - KKM_GUEST_VA_OFFSET)))"
proof (intro conjI impI)
  assume "0x200000 \<le> a \<and> a < 0x8000000000"
  then show "kkm_guest_va_to_monitor_va slots a = (True, KKM_KM_USER_MEM_BASE + a)"
    by (simp add: kkm_guest_va_to_monitor_va_def KKM_GUEST_MEM_START_VA_val
        KKM_GUEST_MAX_PHYS_MEM_val)
next
  assume h: "KKM_GUEST_VA_OFFSET \<le> a \<and> a < 0x7FFFFFE00000"
  then have "\<not> a < KKM_GUEST_MAX_PHYS_MEM"
    by (simp add: high_window_not_low)
  with h show "kkm_guest_va_to_monitor_va slots a
        = (True, KKM_KM_USER_MEM_BASE + (a - KKM_GUEST_VA_OFFSET))"
    by (simp add: kkm_guest_va_to_monitor_va_def KKM_GUEST_MEM_TOP_VA_val)
qed

theorem guest_va_linear_windows_witness:
  "kkm_guest_va_to_monitor_va (\<lambda>_. \<lparr>used = False, mr_memory_size = 0, mr_userspace_addr = 0\<rparr>)
      0x200000 = (True, 0x100000200000)
   \<and> kkm_guest_va_to_monitor_va (\<lambda>_. \<lparr>used = False, mr_memory_size = 0, mr_userspace_addr = 0\<rparr>)
      0x7F8000001000 = (True, 0x100000001000)"
  using guest_va_linear_windows
    [of "0x200000" "\<lambda>_. \<lparr>used = False, mr_memory_size = 0, mr_userspace_addr = 0\<rparr>"]
    guest_va_linear_windows
    [of "0x7F8000001000" "\<lambda>_. \<lparr>used = False, mr_memory_size = 0, mr_userspace_addr = 0\<rparr>"]
  by (simp add: KKM_GUEST_VA_OFFSET_val KKM_KM_USER_MEM_BASE_def)

lemma sample_translate_low:
  "kkm_guest_va_to_monitor_va sample_slots 0x200000 = (True, 0x100000200000)"
  by (simp add: kkm_guest_va_to_monitor_va_def kkm_va_vals KKM_KM_USER_MEM_BASE_def)

section \<open>The reserved VDSO slot\<close>

text \<open>
  The upper bound of the slot's range is the 64-bit sum that the code computes; it is
  the sum of the numbers whenever that does not reach \<open>2 ^ 64\<close>.
\<close>

lemma vdso_range_nat:
  assumes "unat KKM_GUEST_VVAR_VDSO_BASE_VA + unat s < 2 ^ 64"
  shows "(a < KKM_GUEST_VVAR_VDSO_BASE_VA + s)
           = (unat a < unat KKM_GUEST_VVAR_VDSO_BASE_VA + unat s)"
proof -
  have "unat (KKM_GUEST_VVAR_VDSO_BASE_VA + s) = unat KKM_GUEST_VVAR_VDSO_BASE_VA + unat s"
    using assms unat_add_lem [of KKM_GUEST_VVAR_VDSO_BASE_VA s] by simp
  then show ?thesis
    by (simp only: word_less_nat_alt)
qed

text \<open>
  Claim C5. With base \<open>b\<close> and size \<open>s\<close> recorded in the reserved VDSO slot (index 41), for
  every address \<open>a\<close> in [KKM_GUEST_VVAR_VDSO_BASE_VA, KKM_GUEST_VVAR_VDSO_BASE_VA + s):
  when the slot is marked used, the translator succeeds with
  \<open>b + (a - KKM_GUEST_VVAR_VDSO_BASE_VA)\<close>; when it is not, the translation fails. Such an
  address lies above both linear windows.
\<close>

theorem vdso_slot_translation:
  assumes "KKM_GUEST_VVAR_VDSO_BASE_VA \<le> a"
    and "a < KKM_GUEST_VVAR_VDSO_BASE_VA + s"
    and "mr_memory_size (slots KKM_KM_RSRV_VDSOSLOT) = s"
    and "mr_userspace_addr (slots KKM_KM_RSRV_VDSOSLOT) = b"
  shows "KKM_KM_RSRV_VDSOSLOT = 41
       \<and> (used (slots KKM_KM_RSRV_VDSOSLOT) \<longrightarrow>
           kkm_guest_va_to_monitor_va slots a = (True, b + (a - KKM_GUEST_VVAR_VDSO_BASE_VA)))
       \<and> (\<not> used (slots KKM_KM_RSRV_VDSOSLOT) \<longrightarrow>
           kkm_guest_va_to_monitor_va slots a = (False, 0))"
proof -
  have "(used (slots KKM_KM_RSRV_VDSOSLOT) \<longrightarrow>
           kkm_guest_va_to_monitor_va slots a = (True, b + (a - KKM_GUEST_VVAR_VDSO_BASE_VA)))
       \<and> (\<not> used (slots KKM_KM_RSRV_VDSOSLOT) \<longrightarrow>
           kkm_guest_va_to_monitor_va slots a = (False, 0))"
    using assms
    by (simp add: kkm_guest_va_to_monitor_va_def vvar_not_low vvar_not_high Let_def)
  then show ?thesis
    by (simp add: KKM_KM_RSRV_VDSOSLOT_def)
qed

theorem vdso_slot_translation_witness:
  "kkm_guest_va_to_monitor_va (sample_vdso_slots True) 0x7FFFFFF01234
      = (True, 0x7F0000001234)
   \<and> kkm_guest_va_to_monitor_va (sample_vdso_slots False) 0x7FFFFFF01234 = (False, 0)"
proof -
  have lo: "KKM_GUEST_VVAR_VDSO_BASE_VA \<le> 0x7FFFFFF01234"
    by (simp add: KKM_GUEST_VVAR_VDSO_BASE_VA_val)
  have hi: "0x7FFFFFF01234 < KKM_GUEST_VVAR_VDSO_BASE_VA + 0x4000"
    by (simp add: KKM_GUEST_VVAR_VDSO_BASE_VA_val)
  have sz: "mr_memory_size (sample_vdso_slots u KKM_KM_RSRV_VDSOSLOT) = 0x4000" for u
    by (simp add: sample_vdso_slots_def KKM_KM_RSRV_VDSOSLOT_def)
  have ba: "mr_userspace_addr (sample_vdso_slots u KKM_KM_RSRV_VDSOSLOT) = 0x7F0000000000"
    for u
    by (simp add: sample_vdso_slots_def KKM_KM_RSRV_VDSOSLOT_def)
  have us: "used (sample_vdso_slots u KKM_KM_RSRV_VDSOSLOT) = u" for u
    by (simp add: sample_vdso_slots_def KKM_KM_RSRV_VDSOSLOT_def)
  have val: "0x7F0000000000 + (0x7FFFFFF01234 - KKM_GUEST_VVAR_VDSO_BASE_VA)
               = (0x7F0000001234 :: u64)"
    by (simp add: KKM_GUEST_VVAR_VDSO_BASE_VA_val)
  have t: "kkm_guest_va_to_monitor_va (sample_vdso_slots True) 0x7FFFFFF01234
             = (True, 0x7F0000001234)"
    using vdso_slot_translation [where slots = "sample_vdso_slots True", OF lo hi sz ba]
      us [of True] val
    by (simp only: simp_thms)
  have f: "kkm_guest_va_to_monitor_va (sample_vdso_slots False) 0x7FFFFFF01234 = (False, 0)"
    using vdso_slot_translation [where slots = "sample_vdso_slots False", OF lo hi sz ba]
      us [of False]
    by (simp only: simp_thms)
  from t f show ?thesis by (simp only: simp_thms)
qed

section \<open>Addresses outside every range\<close>

text \<open>
  Claim C6. For a guest virtual address outside the low window, the high window and the
  range of a used VDSO slot, the translator returns false (with monitor address 0). Its
  two callers then return \<open>-EFAULT\<close> for the trap and leave the kontext as it was: no
  user access is attempted and nothing is staged.
\<close>

theorem untranslatable_address_fails:
  assumes "\<not> (KKM_GUEST_MEM_START_VA \<le> a \<and> a < KKM_GUEST_MAX_PHYS_MEM)"
    and "\<not> (KKM_GUEST_VA_OFFSET \<le> a \<and> a < KKM_GUEST_MEM_TOP_VA)"
    and "\<not> (used (mem_slot k KKM_KM_RSRV_VDSOSLOT) \<and> KKM_GUEST_VVAR_VDSO_BASE_VA \<le> a
            \<and> a < KKM_GUEST_VVAR_VDSO_BASE_VA
                    + mr_memory_size (mem_slot k KKM_KM_RSRV_VDSOSLOT))"
  shows "kkm_guest_va_to_monitor_va (mem_slot k) a = (False, 0)
     \<and> (trap_info_rip (ga k) = a \<longrightarrow>
          kkm_process_general_protection m k = (- EFAULT, k))
     \<and> (sregs_cr2 (ga k) = a \<longrightarrow> kkm_process_page_fault m k = (- EFAULT, k))
     \<and> - EFAULT < 0"
proof -
  have f: "kkm_guest_va_to_monitor_va (mem_slot k) a = (False, 0)"
    using assms by (auto simp add: kkm_guest_va_to_monitor_va_def Let_def)
  then show ?thesis
    by (simp add: kkm_process_general_protection_def kkm_process_page_fault_def Let_def
        EFAULT_def)
qed

theorem untranslatable_address_fails_witness:
  "kkm_guest_va_to_monitor_va sample_slots 0x1000 = (False, 0)
   \<and> kkm_process_general_protection sample_macros (sample_kontext 13 0x1000 0 0xEF)
       = (- 14, sample_kontext 13 0x1000 0 0xEF)
   \<and> kkm_process_page_fault sample_macros (sample_kontext 14 0x1000 6 0xEF)
       = (- 14, sample_kontext 14 0x1000 6 0xEF)"
  using untranslatable_address_fails
      [of "0x1000" "sample_kontext 13 0x1000 0 0xEF" sample_macros]
    untranslatable_address_fails
      [of "0x1000" "sample_kontext 14 0x1000 6 0xEF" sample_macros]
  by (simp add: sample_kontext_def sample_ga_def sample_slots_def kkm_va_vals EFAULT_def)

section \<open>Page-fault emulator\<close>

lemma single_bit: "(x::u64) AND 2 ^ n = 0 \<or> x AND 2 ^ n = 2 ^ n"
proof (cases "bit x n")
  case True
  have "x AND 2 ^ n = 2 ^ n"
    by (rule bit_eqI) (auto simp add: bit_and_iff bit_exp_iff True)
  then show ?thesis by simp
next
  case False
  then show ?thesis by (simp add: and_exp_eq_0_iff_not_bit)
qed

lemma pf_user_bit: "((e::u64) AND X86_PF_USER = X86_PF_USER) = bit e 2"
  using single_bit [of e 2] and_exp_eq_0_iff_not_bit [of e 2]
  by (auto simp add: X86_PF_USER_def)

lemma pf_write_bit: "((e::u64) AND X86_PF_WRITE = X86_PF_WRITE) = bit e 1"
  using single_bit [of e 1] and_exp_eq_0_iff_not_bit [of e 1]
  by (auto simp add: X86_PF_WRITE_def)

text \<open>
  Claim C2. Let the faulting address \<open>cr2\<close> translate to the monitor address \<open>addr\<close>.
  With the USER bit (bit 2) of the error code set and the WRITE bit (bit 1) clear, and
  \<open>addr\<close> readable, the emulator makes the one-byte read only and returns
  KKM_KONTEXT_FAULT_PROCESS_DONE, on which the guest is restarted. With both bits set,
  and \<open>addr\<close> readable and writable, it makes the read and then writes the same byte
  back, and returns the same. With the USER bit clear it returns 0 and changes nothing:
  no access is made. A valid monitor address is one where the accesses made succeed.
\<close>

theorem page_fault_probes:
  assumes tr: "kkm_guest_va_to_monitor_va (mem_slot k) (sregs_cr2 (ga k)) = (True, addr)"
  shows
    "(bit (trap_info_error (ga k)) 2 \<and> \<not> bit (trap_info_error (ga k)) 1
        \<and> readable (monitor_mem k) addr \<longrightarrow>
      fst (kkm_process_page_fault m k) = KKM_KONTEXT_FAULT_PROCESS_DONE m
      \<and> restarts_guest m (fst (kkm_process_page_fault m k))
      \<and> probes (snd (kkm_process_page_fault m k)) = probes k @ [User_read addr])
     \<and> (bit (trap_info_error (ga k)) 2 \<and> bit (trap_info_error (ga k)) 1
        \<and> readable (monitor_mem k) addr \<and> writable (monitor_mem k) addr \<longrightarrow>
      fst (kkm_process_page_fault m k) = KKM_KONTEXT_FAULT_PROCESS_DONE m
      \<and> restarts_guest m (fst (kkm_process_page_fault m k))
      \<and> probes (snd (kkm_process_page_fault m k))
          = probes k @ [User_read addr, User_write addr (content (monitor_mem k) addr)])
     \<and> (\<not> bit (trap_info_error (ga k)) 2 \<longrightarrow>
      kkm_process_page_fault m k = (0, k))"
  using tr
  by (simp add: kkm_process_page_fault_def Let_def copy_from_user_def copy_to_user_def
      restarts_guest_def pf_user_bit pf_write_bit)

theorem page_fault_probes_witness:
  "fst (kkm_process_page_fault sample_macros (sample_kontext 14 0x200000 4 0x5A)) = 1
   \<and> probes (snd (kkm_process_page_fault sample_macros (sample_kontext 14 0x200000 4 0x5A)))
       = [User_read 0x100000200000]
   \<and> fst (kkm_process_page_fault sample_macros (sample_kontext 14 0x200000 6 0x5A)) = 1
   \<and> probes (snd (kkm_process_page_fault sample_macros (sample_kontext 14 0x200000 6 0x5A)))
       = [User_read 0x100000200000, User_write 0x100000200000 0x5A]
   \<and> kkm_process_page_fault sample_macros (sample_kontext 14 0x200000 2 0x5A)
       = (0, sample_kontext 14 0x200000 2 0x5A)"
  using page_fault_probes [of "sample_kontext 14 0x200000 4 0x5A" "0x100000200000" sample_macros]
    page_fault_probes [of "sample_kontext 14 0x200000 6 0x5A" "0x100000200000" sample_macros]
    page_fault_probes [of "sample_kontext 14 0x200000 2 0x5A" "0x100000200000" sample_macros]
  by (simp add: sample_kontext_def sample_ga_def sample_translate_low sample_macros_def
      flip: pf_user_bit pf_write_bit)
     (simp add: X86_PF_USER_def X86_PF_WRITE_def)

section \<open>Protected-mode fault emulator\<close>

lemma kkm_switch_to_host_kernel_rip:
  "regs_rip (kkm_switch_to_host_kernel g) = trap_info_rip g"
  "trap_info_rip (kkm_switch_to_host_kernel g) = trap_info_rip g"
  by (simp_all add: kkm_switch_to_host_kernel_def)

text \<open>
  Claim C3. When the byte fetched at the translated faulting instruction pointer is the
  out opcode, with guest \<open>rax = 0x1234\<close> and \<open>rdx = 0x03F8\<close>, the emulator returns 0 and
  stages an I/O exit: exit reason IO, direction out, size 4, port \<open>0x03F8\<close>, count 1, and
  \<open>0x00001234\<close> in the first 32-bit word of the data page. The saved instruction pointer
  grows by exactly 1; it starts at the faulting value, since \<open>kkm_switch_to_host_kernel\<close>
  copies \<open>trap_info.rip\<close> to \<open>regs.rip\<close> before the dispatcher runs.
\<close>

theorem gp_out_emulation:
  assumes tr: "kkm_guest_va_to_monitor_va (mem_slot k) (trap_info_rip (ga k)) = (True, addr)"
    and rd: "readable (monitor_mem k) addr"
    and op: "content (monitor_mem k) addr = KKM_OUT_OPCODE m"
    and rax: "regs_rax (ga k) = 0x1234"
    and rdx: "regs_rdx (ga k) = 0x03F8"
  shows
    "fst (kkm_process_general_protection m k) = 0
     \<and> exit_reason (run (snd (kkm_process_general_protection m k))) = KKM_EXIT_IO m
     \<and> io_direction (run (snd (kkm_process_general_protection m k))) = KKM_EXIT_IO_OUT m
     \<and> io_size (run (snd (kkm_process_general_protection m k))) = 4
     \<and> io_port (run (snd (kkm_process_general_protection m k))) = 0x03F8
     \<and> io_count (run (snd (kkm_process_general_protection m k))) = 1
     \<and> io_data (snd (kkm_process_general_protection m k)) 0 = 0x00001234
     \<and> regs_rip (ga (snd (kkm_process_general_protection m k))) = regs_rip (ga k) + 1
     \<and> (regs_rip (ga k) = trap_info_rip (ga k) \<longrightarrow>
          regs_rip (ga (snd (kkm_process_general_protection m k))) = trap_info_rip (ga k) + 1)"
  using assms
  by (simp add: kkm_process_general_protection_def Let_def copy_from_user_def)

theorem gp_out_emulation_witness:
  "fst (kkm_process_general_protection sample_macros (sample_kontext 13 0x200000 0 0xEF)) = 0
   \<and> run (snd (kkm_process_general_protection sample_macros
                  (sample_kontext 13 0x200000 0 0xEF)))
       = \<lparr>exit_reason = 2, io_direction = 1, io_size = 4, io_port = 0x03F8, io_count = 1,
          io_data_offset = 4096\<rparr>
   \<and> io_data (snd (kkm_process_general_protection sample_macros
                      (sample_kontext 13 0x200000 0 0xEF))) 0 = 0x1234
   \<and> regs_rip (ga (snd (kkm_process_general_protection sample_macros
                           (sample_kontext 13 0x200000 0 0xEF)))) = 0x200001"
proof -
  let ?k = "sample_kontext 13 0x200000 0 0xEF"
  have tr: "kkm_guest_va_to_monitor_va (mem_slot ?k) (trap_info_rip (ga ?k))
              = (True, 0x100000200000)"
    by (simp add: sample_kontext_def sample_ga_def sample_translate_low)
  have rd: "readable (monitor_mem ?k) 0x100000200000"
    by (simp add: sample_kontext_def)
  have op: "content (monitor_mem ?k) 0x100000200000 = KKM_OUT_OPCODE sample_macros"
    by (simp add: sample_kontext_def sample_macros_def)
  have rax: "regs_rax (ga ?k) = 0x1234" and rdx: "regs_rdx (ga ?k) = 0x03F8"
    by (simp_all add: sample_kontext_def sample_ga_def)
  have off: "io_data_offset (run (snd (kkm_process_general_protection sample_macros ?k)))
               = 4096"
    using tr rd op
    by (simp add: kkm_process_general_protection_def Let_def copy_from_user_def PAGE_SIZE_def)
  have rip: "regs_rip (ga ?k) = 0x200000"
    by (simp add: sample_kontext_def sample_ga_def)
  have eq: "r = \<lparr>exit_reason = exit_reason r, io_direction = io_direction r,
              io_size = io_size r, io_port = io_port r, io_count = io_count r,
              io_data_offset = io_data_offset r\<rparr>" for r :: kkm_run
    by simp
  show ?thesis
    using gp_out_emulation [where k = ?k and m = sample_macros, OF tr rd op rax rdx] off rip
    by (subst eq) (simp add: sample_macros_def)
qed

text \<open>
  Claim C7, as amended. When the byte fetched at the translated faulting instruction
  pointer is not the out opcode, the emulator returns 0, the status of the success path:
  besides the fetch into the scratch buffer (and its entry in the access log) the
  kontext is unchanged, so no exit record is staged and the instruction pointer is not
  advanced.
\<close>

theorem gp_opcode_mismatch:
  assumes tr: "kkm_guest_va_to_monitor_va (mem_slot k) (trap_info_rip (ga k)) = (True, addr)"
    and rd: "readable (monitor_mem k) addr"
    and op: "content (monitor_mem k) addr \<noteq> KKM_OUT_OPCODE m"
  shows "kkm_process_general_protection m k
     = (0, k\<lparr>probes := probes k @ [User_read addr],
             ga := (ga k)\<lparr>instruction_decode :=
                (instruction_decode (ga k))(0 := content (monitor_mem k) addr)\<rparr>\<rparr>)"
  using assms
  by (simp add: kkm_process_general_protection_def Let_def copy_from_user_def)

theorem gp_opcode_mismatch_witness:
  "fst (kkm_process_general_protection sample_macros (sample_kontext 13 0x200000 0 0x90)) = 0
   \<and> run (snd (kkm_process_general_protection sample_macros
                  (sample_kontext 13 0x200000 0 0x90)))
       = run (sample_kontext 13 0x200000 0 0x90)
   \<and> regs_rip (ga (snd (kkm_process_general_protection sample_macros
                           (sample_kontext 13 0x200000 0 0x90)))) = 0x200000"
proof -
  let ?k = "sample_kontext 13 0x200000 0 0x90"
  have tr: "kkm_guest_va_to_monitor_va (mem_slot ?k) (trap_info_rip (ga ?k))
              = (True, 0x100000200000)"
    by (simp add: sample_kontext_def sample_ga_def sample_translate_low)
  have rd: "readable (monitor_mem ?k) 0x100000200000"
    by (simp add: sample_kontext_def)
  have op: "content (monitor_mem ?k) 0x100000200000 \<noteq> KKM_OUT_OPCODE sample_macros"
    by (simp add: sample_kontext_def sample_macros_def)
  have rip: "regs_rip (ga ?k) = 0x200000"
    by (simp add: sample_kontext_def sample_ga_def)
  show ?thesis
    using gp_opcode_mismatch [where k = ?k and m = sample_macros, OF tr rd op] rip
    by simp
qed

text \<open>
  The claim as stated fails: with the byte \<open>0x90\<close> at the faulting instruction pointer
  and \<open>0xEF\<close> as the expected opcode, the emulator and the dispatcher return 0, not an
  error status.
\<close>

theorem gp_opcode_mismatch_counterexample:
  "content (monitor_mem (sample_kontext 13 0x200000 0 0x90)) 0x100000200000
     \<noteq> KKM_OUT_OPCODE sample_macros
   \<and> kkm_guest_va_to_monitor_va (mem_slot (sample_kontext 13 0x200000 0 0x90))
        (trap_info_rip (ga (sample_kontext 13 0x200000 0 0x90))) = (True, 0x100000200000)
   \<and> fst (kkm_process_general_protection sample_macros (sample_kontext 13 0x200000 0 0x90)) = 0
   \<and> fst (kkm_process_intr sample_macros (sample_kontext 13 0x200000 0 0x90)) = 0"
  by (simp add: kkm_process_intr_def kkm_process_general_protection_def Let_def
      copy_from_user_def sample_kontext_def sample_ga_def sample_macros_def
      sample_translate_low X86_TRAP_GP_def)

section \<open>Dispatcher\<close>

text \<open>
  Claim C4. For every trap vector other than general protection (13) and page fault (14),
  \<open>kkm_process_intr\<close> returns \<open>-EOPNOTSUPP\<close>, a negative code; it only resets the exit
  reason, calls no emulator, and its result does not restart the guest, the restarting
  value KKM_KONTEXT_FAULT_PROCESS_DONE not being a negative code.
\<close>

theorem unsupported_trap:
  assumes "kkm_intr_no (ga k) \<noteq> 13" and "kkm_intr_no (ga k) \<noteq> 14"
  shows "kkm_process_intr m k
           = (- EOPNOTSUPP, k\<lparr>run := (run k)\<lparr>exit_reason := KKM_EXIT_UNKNOWN m\<rparr>\<rparr>)
         \<and> fst (kkm_process_intr m k) < 0
         \<and> (0 \<le> KKM_KONTEXT_FAULT_PROCESS_DONE m \<longrightarrow>
              \<not> restarts_guest m (fst (kkm_process_intr m k)))"
  using assms
  by (auto simp add: kkm_process_intr_def Let_def X86_TRAP_GP_def X86_TRAP_PF_def
      EOPNOTSUPP_def restarts_guest_def)

theorem unsupported_trap_witness:
  "fst (kkm_process_intr sample_macros (sample_kontext 6 0x200000 0 0xEF)) = - 95
   \<and> \<not> restarts_guest sample_macros
         (fst (kkm_process_intr sample_macros (sample_kontext 6 0x200000 0 0xEF)))
   \<and> probes (snd (kkm_process_intr sample_macros (sample_kontext 6 0x200000 0 0xEF))) = []"
proof -
  let ?k = "sample_kontext 6 0x200000 0 0xEF"
  have v: "kkm_intr_no (ga ?k) \<noteq> 13" "kkm_intr_no (ga ?k) \<noteq> 14"
    by (simp_all add: sample_kontext_def sample_ga_def)
  have d: "0 \<le> KKM_KONTEXT_FAULT_PROCESS_DONE sample_macros"
    by (simp add: sample_macros_def)
  have p: "probes ?k = []"
    by (simp add: sample_kontext_def)
  show ?thesis
    using unsupported_trap [where k = ?k and m = sample_macros, OF v] d p
    by (simp add: EOPNOTSUPP_def restarts_guest_def sample_macros_def)
qed


section \<open>Entering the payload\<close>

lemma and_not_self: "(x AND NOT m) AND m = (0::u64)"
  by (simp add: and.assoc)

lemma clear_keeps: "x AND m = 0 \<Longrightarrow> (x AND NOT n) AND m = (0::u64)"
  by (metis and.assoc and.commute and_zero_eq)

lemma or_keeps: "x AND m = 0 \<Longrightarrow> k AND m = 0 \<Longrightarrow> (x OR k) AND m = (0::u64)"
  by (simp add: bit.conj_disj_distrib2)

lemma or_sets: "(x OR k) AND k = (k::u64)"
  by (simp add: and.commute)

lemma rf_disjoint:
  "X86_EFLAGS_RF AND X86_EFLAGS_IF = 0" "X86_EFLAGS_RF AND X86_EFLAGS_IOPL = 0"
  by (simp_all add: X86_EFLAGS_RF_def X86_EFLAGS_IF_def X86_EFLAGS_IOPL_def)

lemma rf_single: "(x::u64) AND X86_EFLAGS_RF = 0 \<or> x AND X86_EFLAGS_RF = X86_EFLAGS_RF"
  using single_bit [of x 16] by (simp add: X86_EFLAGS_RF_def)

lemma start_payload_rflags:
  "regs_rflags (kkm_guest_kernel_start_payload g c s0 s1 s2) =
     (let r1 = regs_rflags g AND NOT X86_EFLAGS_IF;
          r2 = (if r1 AND X86_EFLAGS_IOPL \<noteq> 0 then r1 AND NOT X86_EFLAGS_IOPL else r1)
      in if r2 AND X86_EFLAGS_RF = 0 then r2 OR X86_EFLAGS_RF else r2)"
  by (simp add: kkm_guest_kernel_start_payload_def Let_def)

lemma flags_policy:
  fixes r :: u64
  defines "r1 \<equiv> r AND NOT X86_EFLAGS_IF"
  defines "r2 \<equiv> (if r1 AND X86_EFLAGS_IOPL \<noteq> 0 then r1 AND NOT X86_EFLAGS_IOPL else r1)"
  defines "r3 \<equiv> (if r2 AND X86_EFLAGS_RF = 0 then r2 OR X86_EFLAGS_RF else r2)"
  shows "r3 AND X86_EFLAGS_IF = 0" and "r3 AND X86_EFLAGS_IOPL = 0"
    and "r3 AND X86_EFLAGS_RF = X86_EFLAGS_RF"
proof -
  have a1: "r1 AND X86_EFLAGS_IF = 0" by (simp add: r1_def and_not_self)
  have a2: "r2 AND X86_EFLAGS_IF = 0" using a1 by (simp add: r2_def clear_keeps)
  have b2: "r2 AND X86_EFLAGS_IOPL = 0" by (simp add: r2_def and_not_self)
  show "r3 AND X86_EFLAGS_IF = 0" using a2 by (simp add: r3_def or_keeps rf_disjoint)
  show "r3 AND X86_EFLAGS_IOPL = 0" using b2 by (simp add: r3_def or_keeps rf_disjoint)
  show "r3 AND X86_EFLAGS_RF = X86_EFLAGS_RF"
    using rf_single [of r2] by (auto simp add: r3_def or_sets)
qed

lemma if_bit: "((x::u64) AND X86_EFLAGS_IF = 0) = (\<not> bit x 9)"
  using and_exp_eq_0_iff_not_bit [of x 9] by (simp add: X86_EFLAGS_IF_def)

lemma rf_bit: "((x::u64) AND X86_EFLAGS_RF = X86_EFLAGS_RF) = bit x 16"
  using single_bit [of x 16] and_exp_eq_0_iff_not_bit [of x 16]
  by (auto simp add: X86_EFLAGS_RF_def)

lemma iopl_bits: "((x::u64) AND X86_EFLAGS_IOPL = 0) = (\<not> bit x 12 \<and> \<not> bit x 13)"
proof -
  have e: "X86_EFLAGS_IOPL = 2 ^ 12 OR 2 ^ 13"
    by (simp add: X86_EFLAGS_IOPL_def)
  have "x AND X86_EFLAGS_IOPL = (x AND 2 ^ 12) OR (x AND 2 ^ 13)"
    by (simp only: e bit.conj_disj_distrib)
  then show ?thesis
    using and_exp_eq_0_iff_not_bit [of x 12] and_exp_eq_0_iff_not_bit [of x 13]
    by (simp only: or_eq_0_iff)
qed

text \<open>
  Claim C8. Whatever the saved guest state, the guest area handed to the payload entry
  has the code and stack selectors set to the user selectors \<open>__USER_CS\<close> and
  \<open>__USER_DS\<close>, and saved flags with the interrupt flag (bit 9) clear, both bits of the
  I/O privilege level (bits 12 and 13) clear, and the resume flag (bit 16) set.
\<close>

theorem start_payload_forces:
  "guest_payload_cs (kkm_guest_kernel_start_payload g c s0 s1 s2) = USER_CS
   \<and> guest_payload_ss (kkm_guest_kernel_start_payload g c s0 s1 s2) = USER_DS
   \<and> regs_rflags (kkm_guest_kernel_start_payload g c s0 s1 s2) AND X86_EFLAGS_IF = 0
   \<and> regs_rflags (kkm_guest_kernel_start_payload g c s0 s1 s2) AND X86_EFLAGS_IOPL = 0
   \<and> regs_rflags (kkm_guest_kernel_start_payload g c s0 s1 s2) AND X86_EFLAGS_RF
        = X86_EFLAGS_RF
   \<and> \<not> bit (regs_rflags (kkm_guest_kernel_start_payload g c s0 s1 s2)) 9
   \<and> \<not> bit (regs_rflags (kkm_guest_kernel_start_payload g c s0 s1 s2)) 12
   \<and> \<not> bit (regs_rflags (kkm_guest_kernel_start_payload g c s0 s1 s2)) 13
   \<and> bit (regs_rflags (kkm_guest_kernel_start_payload g c s0 s1 s2)) 16"
proof -
  let ?g = "kkm_guest_kernel_start_payload g c s0 s1 s2"
  have sel: "guest_payload_cs ?g = USER_CS" "guest_payload_ss ?g = USER_DS"
    by (simp_all add: kkm_guest_kernel_start_payload_def Let_def)
  have i: "regs_rflags ?g AND X86_EFLAGS_IF = 0"
    unfolding start_payload_rflags Let_def by (rule flags_policy(1))
  have p: "regs_rflags ?g AND X86_EFLAGS_IOPL = 0"
    unfolding start_payload_rflags Let_def by (rule flags_policy(2))
  have r: "regs_rflags ?g AND X86_EFLAGS_RF = X86_EFLAGS_RF"
    unfolding start_payload_rflags Let_def by (rule flags_policy(3))
  show ?thesis
    using sel i p r if_bit [of "regs_rflags ?g"] iopl_bits [of "regs_rflags ?g"]
      rf_bit [of "regs_rflags ?g"]
    by (simp only: simp_thms)
qed

lemma start_payload_sample:
  "regs_rflags (kkm_guest_kernel_start_payload (sample_ga 0 0x200000 0) 0 0 0 0) = 0x10046
   \<and> guest_payload_cs (kkm_guest_kernel_start_payload (sample_ga 0 0x200000 0) 0 0 0 0) = 0x33
   \<and> guest_payload_ss (kkm_guest_kernel_start_payload (sample_ga 0 0x200000 0) 0 0 0 0) = 0x2B"
  by (simp add: kkm_guest_kernel_start_payload_def Let_def sample_ga_def X86_EFLAGS_IF_def
      X86_EFLAGS_IOPL_def X86_EFLAGS_RF_def USER_CS_def USER_DS_def)


section \<open>Rollback of a failed initialisation\<close>

text \<open>
  Claim C9, as amended. If \<open>kkm_kontainer_init\<close> returns a nonzero value, that value is
  the result of a failed allocation, all three page-pointer fields are NULL, and for
  every page allocated earlier in the call its address was passed to \<open>free_page\<close> and its
  address field is 0; the physical-address field still holds what the allocator stored.
  If \<open>kkm_kontext_init\<close> returns a nonzero value, its only allocation failed, and the
  result is the cleanup of the kontext as it was, with a NULL page pointer. A successful
  allocation is taken to return a page pointer that is not NULL.
\<close>

theorem init_failure_rollback:
  "(kkm_kontainer_init d a1 a2 a3 k = (r, k') \<and> r \<noteq> 0
      \<and> alloc_page_nonnull a1 \<and> alloc_page_nonnull a2 \<longrightarrow>
      (r = alloc_ret a1 \<or> r = alloc_ret a2 \<or> r = alloc_ret a3)
      \<and> guest_kernel_page k' = 0 \<and> guest_payload_page k' = 0 \<and> idt_page k' = 0
      \<and> (\<forall>p v pa. a1 = Alloc_ok p v pa \<longrightarrow>
            guest_kernel k' = 0 \<and> guest_kernel_pa k' = pa
            \<and> (\<exists>fs. freed k' = freed k @ fs \<and> v \<in> set fs))
      \<and> (\<forall>p v pa. alloc_ret a1 = 0 \<and> a2 = Alloc_ok p v pa \<longrightarrow>
            guest_payload k' = 0 \<and> guest_payload_pa k' = pa
            \<and> (\<exists>fs. freed k' = freed k @ fs \<and> v \<in> set fs)))
   \<and> (kkm_kontext_init self virt_to_phys a c = (rc, c') \<and> rc \<noteq> 0 \<longrightarrow>
      rc = alloc_ret a \<and> c' = kkm_kontext_cleanup c \<and> guest_area_page c' = 0)"
proof (rule conjI; rule impI)
  assume h: "kkm_kontext_init self virt_to_phys a c = (rc, c') \<and> rc \<noteq> 0"
  then show "rc = alloc_ret a \<and> c' = kkm_kontext_cleanup c \<and> guest_area_page c' = 0"
    by (cases a)
       (auto simp add: kkm_kontext_init_def Let_def kkm_kontext_cleanup_def
          split: if_splits)
next
  assume h: "kkm_kontainer_init d a1 a2 a3 k = (r, k') \<and> r \<noteq> 0
      \<and> alloc_page_nonnull a1 \<and> alloc_page_nonnull a2"
  show "(r = alloc_ret a1 \<or> r = alloc_ret a2 \<or> r = alloc_ret a3)
      \<and> guest_kernel_page k' = 0 \<and> guest_payload_page k' = 0 \<and> idt_page k' = 0
      \<and> (\<forall>p v pa. a1 = Alloc_ok p v pa \<longrightarrow>
            guest_kernel k' = 0 \<and> guest_kernel_pa k' = pa
            \<and> (\<exists>fs. freed k' = freed k @ fs \<and> v \<in> set fs))
      \<and> (\<forall>p v pa. alloc_ret a1 = 0 \<and> a2 = Alloc_ok p v pa \<longrightarrow>
            guest_payload k' = 0 \<and> guest_payload_pa k' = pa
            \<and> (\<exists>fs. freed k' = freed k @ fs \<and> v \<in> set fs))"
    using h
    by (cases a1; cases a2; cases a3)
       (auto simp add: kkm_kontainer_init_def Let_def kkm_kontainer_cleanup_def
          split: if_splits)
qed

theorem init_failure_rollback_witness:
  "fst (kkm_kontainer_init 0xFFFFFFFFC0002000
          (Alloc_ok 0xFFFFEA0000040000 0xFFFF888001000000 0x1000000)
          (Alloc_fail (- 12)) (Alloc_fail (- 12)) sample_kkm) = - 12
   \<and> guest_kernel_page (snd (kkm_kontainer_init 0xFFFFFFFFC0002000
          (Alloc_ok 0xFFFFEA0000040000 0xFFFF888001000000 0x1000000)
          (Alloc_fail (- 12)) (Alloc_fail (- 12)) sample_kkm)) = 0
   \<and> guest_kernel (snd (kkm_kontainer_init 0xFFFFFFFFC0002000
          (Alloc_ok 0xFFFFEA0000040000 0xFFFF888001000000 0x1000000)
          (Alloc_fail (- 12)) (Alloc_fail (- 12)) sample_kkm)) = 0
   \<and> 0xFFFF888001000000 \<in> set (freed (snd (kkm_kontainer_init 0xFFFFFFFFC0002000
          (Alloc_ok 0xFFFFEA0000040000 0xFFFF888001000000 0x1000000)
          (Alloc_fail (- 12)) (Alloc_fail (- 12)) sample_kkm)))
   \<and> fst (kkm_kontext_init 0xFFFF888002000000 (\<lambda>v. v - 0xFFFF888000000000)
            (Alloc_fail (- 12)) sample_kontext_alloc) = - 12
   \<and> guest_area_page (snd (kkm_kontext_init 0xFFFF888002000000 (\<lambda>v. v - 0xFFFF888000000000)
            (Alloc_fail (- 12)) sample_kontext_alloc)) = 0"
proof -
  let ?a1 = "Alloc_ok 0xFFFFEA0000040000 0xFFFF888001000000 0x1000000"
  let ?i = "kkm_kontainer_init 0xFFFFFFFFC0002000 ?a1 (Alloc_fail (- 12)) (Alloc_fail (- 12))
              sample_kkm"
  let ?j = "kkm_kontext_init 0xFFFF888002000000 (\<lambda>v. v - 0xFFFF888000000000)
              (Alloc_fail (- 12)) sample_kontext_alloc"
  have ri: "fst ?i = - 12"
    by (simp add: kkm_kontainer_init_def Let_def)
  have rj: "fst ?j = - 12"
    by (simp add: kkm_kontext_init_def Let_def)
  have hi: "?i = (- 12, snd ?i) \<and> (- 12 :: int) \<noteq> 0
              \<and> alloc_page_nonnull ?a1 \<and> alloc_page_nonnull (Alloc_fail (- 12))"
    using ri by (simp add: prod_eq_iff)
  have hj: "?j = (- 12, snd ?j) \<and> (- 12 :: int) \<noteq> 0"
    using rj by (simp add: prod_eq_iff)
  have fr: "freed sample_kkm = []"
    by (simp add: sample_kkm_def)
  note t = init_failure_rollback
      [where d = "0xFFFFFFFFC0002000" and ?a1.0 = ?a1 and ?a2.0 = "Alloc_fail (- 12)"
        and ?a3.0 = "Alloc_fail (- 12)" and k = sample_kkm and r = "- 12" and k' = "snd ?i"
        and self = "0xFFFF888002000000" and virt_to_phys = "\<lambda>v. v - 0xFFFF888000000000"
        and a = "Alloc_fail (- 12)" and c = sample_kontext_alloc and rc = "- 12"
        and c' = "snd ?j"]
  from t hi have "guest_kernel_page (snd ?i) = 0 \<and> guest_kernel (snd ?i) = 0
      \<and> (\<exists>fs. freed (snd ?i) = freed sample_kkm @ fs \<and> 0xFFFF888001000000 \<in> set fs)"
    by blast
  moreover from t hj have "guest_area_page (snd ?j) = 0"
    by blast
  ultimately show ?thesis
    using ri rj fr by auto
qed

text \<open>
  The claim as stated fails on the physical-address fields: after the first allocation
  succeeded and the second failed, \<open>guest_kernel_pa\<close> still holds the physical address of
  the page that was freed.
\<close>

theorem init_failure_rollback_counterexample:
  "fst (kkm_kontainer_init 0xFFFFFFFFC0002000
          (Alloc_ok 0xFFFFEA0000040000 0xFFFF888001000000 0x1000000)
          (Alloc_fail (- 12)) (Alloc_fail (- 12)) sample_kkm) = - 12
   \<and> freed (snd (kkm_kontainer_init 0xFFFFFFFFC0002000
          (Alloc_ok 0xFFFFEA0000040000 0xFFFF888001000000 0x1000000)
          (Alloc_fail (- 12)) (Alloc_fail (- 12)) sample_kkm)) = [0xFFFF888001000000]
   \<and> guest_kernel_pa (snd (kkm_kontainer_init 0xFFFFFFFFC0002000
          (Alloc_ok 0xFFFFEA0000040000 0xFFFF888001000000 0x1000000)
          (Alloc_fail (- 12)) (Alloc_fail (- 12)) sample_kkm)) = 0x1000000
   \<and> guest_kernel_pa (snd (kkm_kontainer_init 0xFFFFFFFFC0002000
          (Alloc_ok 0xFFFFEA0000040000 0xFFFF888001000000 0x1000000)
          (Alloc_fail (- 12)) (Alloc_fail (- 12)) sample_kkm)) \<noteq> 0"
  by (simp add: kkm_kontainer_init_def Let_def kkm_kontainer_cleanup_def sample_kkm_def)

section \<open>Guest interrupt-descriptor table\<close>

declare kkm_idt_gs_loop.simps [simp del]

lemma kkm_idt_gs_loop_below:
  "j < i \<Longrightarrow> kkm_idt_gs_loop m fp i g j = g j"
proof (induction m fp i g rule: kkm_idt_gs_loop.induct)
  case (1 m fp i g)
  show ?case
  proof (cases "i < NR_VECTORS")
    case True
    have "kkm_idt_gs_loop m fp i g j
            = kkm_idt_gs_loop m fp (i + 1) (g(i := kkm_idt_gs_entry m fp i (g i))) j"
      using True by (subst kkm_idt_gs_loop.simps) simp
    also have "\<dots> = (g(i := kkm_idt_gs_entry m fp i (g i))) j"
    proof (rule "1.IH" [OF True])
      show "j < i + 1" using "1.prems" by simp
    qed
    also have "\<dots> = g j"
      using "1.prems" by simp
    finally show ?thesis .
  next
    case False
    then show ?thesis by (subst kkm_idt_gs_loop.simps) simp
  qed
qed

lemma kkm_idt_gs_loop_at:
  "i \<le> j \<Longrightarrow> j < NR_VECTORS \<Longrightarrow>
   kkm_idt_gs_loop m fp i g j = kkm_idt_gs_entry m fp j (g j)"
proof (induction m fp i g rule: kkm_idt_gs_loop.induct)
  case (1 m fp i g)
  from "1.prems" have lt: "i < NR_VECTORS" by simp
  have step: "kkm_idt_gs_loop m fp i g j
            = kkm_idt_gs_loop m fp (i + 1) (g(i := kkm_idt_gs_entry m fp i (g i))) j"
    using lt by (subst kkm_idt_gs_loop.simps) simp
  show ?case
  proof (cases "i = j")
    case True
    have "kkm_idt_gs_loop m fp (i + 1) (g(i := kkm_idt_gs_entry m fp i (g i))) j
            = (g(i := kkm_idt_gs_entry m fp i (g i))) j"
      by (rule kkm_idt_gs_loop_below) (simp add: True)
    also have "\<dots> = kkm_idt_gs_entry m fp j (g j)"
      by (simp add: True)
    finally show ?thesis
      by (simp only: step)
  next
    case False
    with "1.prems" have le: "i + 1 \<le> j" by simp
    have "kkm_idt_gs_loop m fp (i + 1) (g(i := kkm_idt_gs_entry m fp i (g i))) j
            = kkm_idt_gs_entry m fp j ((g(i := kkm_idt_gs_entry m fp i (g i))) j)"
      by (rule "1.IH" [OF lt le "1.prems"(2)])
    also have "\<dots> = kkm_idt_gs_entry m fp j (g j)"
      using False by simp
    finally show ?thesis
      by (simp only: step)
  qed
qed

lemma kkm_idt_descr_init_gs:
  assumes "kkm_idt_descr_init m env s = (0, s')"
  shows "\<exists>fp. gs s' = kkm_idt_gs_loop m fp 0 (gs s)"
  using assms
  by (auto simp add: kkm_idt_descr_init_def Let_def EINVAL_def split: if_splits prod.splits)

text \<open>
  Claim C10. In the table built by a successful \<open>kkm_idt_descr_init\<close>, each of the 256
  entries is a present (\<open>p = 1\<close>) interrupt gate (\<open>type = GATE_INTERRUPT\<close>) on
  \<open>__KERNEL_CS\<close> with descriptor privilege level 0, except the entries 3 (breakpoint) and
  4 (overflow), whose level is 3: these two are the only gates that code at privilege
  level 3 may raise by software.
\<close>

theorem guest_idt_gates:
  assumes "kkm_idt_descr_init m env s = (0, s')" and "i < 256"
  shows "segment (gs s' i) = KERNEL_CS
       \<and> bits_type (gs s' i) = GATE_INTERRUPT
       \<and> bits_p (gs s' i) = 1
       \<and> bits_ist (gs s' i) = 0
       \<and> bits_dpl (gs s' i) = (if i = 3 \<or> i = 4 then 3 else 0)
       \<and> (bits_dpl (gs s' i) = 3) = (i = X86_TRAP_BP \<or> i = X86_TRAP_OF)"
proof -
  from assms(1) obtain fp where "gs s' = kkm_idt_gs_loop m fp 0 (gs s)"
    using kkm_idt_descr_init_gs by blast
  with assms(2) have "gs s' i = kkm_idt_gs_entry m fp i (gs s i)"
    by (simp add: kkm_idt_gs_loop_at NR_VECTORS_def)
  then show ?thesis
    by (simp add: kkm_idt_gs_entry_def Let_def X86_TRAP_BP_def X86_TRAP_OF_def)
qed

theorem guest_idt_gates_witness:
  "fst (kkm_idt_descr_init sample_macros sample_idt_env sample_idt_state) = 0
   \<and> bits_dpl (gs (snd (kkm_idt_descr_init sample_macros sample_idt_env sample_idt_state)) 3) = 3
   \<and> bits_dpl (gs (snd (kkm_idt_descr_init sample_macros sample_idt_env sample_idt_state)) 14)
        = 0
   \<and> segment (gs (snd (kkm_idt_descr_init sample_macros sample_idt_env sample_idt_state)) 14)
        = 0x10
   \<and> bits_p (gs (snd (kkm_idt_descr_init sample_macros sample_idt_env sample_idt_state)) 255)
        = 1"
proof -
  let ?r = "kkm_idt_descr_init sample_macros sample_idt_env sample_idt_state"
  have z: "fst ?r = 0"
    by (simp add: kkm_idt_descr_init_def Let_def sample_macros_def sample_idt_env_def)
  then have h: "?r = (0, snd ?r)"
    by (simp add: prod_eq_iff)
  show ?thesis
    using z guest_idt_gates [OF h, of 3] guest_idt_gates [OF h, of 14]
      guest_idt_gates [OF h, of 255]
    by (simp add: KERNEL_CS_def)
qed


end
